theory Spec2Isabelle
  imports Complex_Main "HOL-Library.Word" "HOL-Library.Signed_Division"
begin

section \<open>The dashboard data source of main.go\<close>

text \<open>
  main.go serves two paths: \<open>/\<close>, the reachability probe, and \<open>/query\<close>. What the
  handlers take from Go's standard library (reading the request body, \<open>json.Unmarshal\<close>,
  \<open>json.Marshal\<close>, \<open>time.Now\<close>) is passed to them as a value of type \<open>Runtime\<close>;
  what they do to the \<open>http.ResponseWriter\<close> is explicit state passing. Calls of
  \<open>log.Printf\<close> and \<open>log.Println\<close> and the copy of the request body to standard
  error write to the process log only and are left out.
\<close>

subsection \<open>Data\<close>

text \<open>A Go \<open>error\<close> value, read through its method \<open>Error()\<close>.\<close>

datatype error = GoError (Error: string)

text \<open>
  A \<open>time.Time\<close> of a decoded query, as the nanoseconds since Go's zero Time. The handlers
  never read it.
\<close>

type_synonym Time = int

text \<open>
  Every \<open>float64\<close> that the handlers build is a whole number of magnitude below \<open>2 ^ 53\<close>
  (the constants 68, 49, 2, 11 and a millisecond count, see \<open>unixMilli_exact\<close> below),
  which \<open>float64\<close> holds exactly. Such a value is modelled by the integer it denotes.
\<close>

type_synonym float64 = int

text \<open>The elements of \<open>Query.Targets\<close> (main.go, lines 133 to 137).\<close>

record QueryTarget =
  Target :: string
  RefID :: string
  Type :: string

text \<open>\<open>Query\<close> (main.go, lines 117 to 140), the nested structs flattened.\<close>

record Query =
  PanelID :: "64 word"
  Range_From :: Time
  Range_To :: Time
  Range_Raw_From :: string
  Range_Raw_To :: string
  RangeRaw_From :: string
  RangeRaw_To :: string
  Interval :: string
  IntervalMs :: "64 word"
  Targets :: "QueryTarget list"
  Format :: string
  MaxDataPoints :: "64 word"

text \<open>\<open>TimeseriesResponse\<close> (lines 145 to 148).\<close>

record TimeseriesResponse =
  ts_Target :: string
  ts_Datapoints :: "float64 list list"

text \<open>\<open>Column\<close>, \<open>Row\<close> and \<open>TableResponse\<close> (lines 151 to 160). A \<open>Row\<close> is a slice
  of \<open>interface{}\<close>; the program stores strings, untyped integer constants and
  \<open>float64\<close> values in it.\<close>

record Column =
  Text :: string
  col_Type :: string

datatype cell = CString string | CInt int | CFloat float64

type_synonym Row = "cell list"

record TableResponse =
  Columns :: "Column list"
  Rows :: "Row list"
  tbl_Type :: string

subsection \<open>The response writer\<close>

text \<open>
  The \<open>http.ResponseWriter\<close>: the status line, once it is written, and the bytes of the
  body written so far. \<open>WriteHeader\<close> has an effect the first time only; \<open>Write\<close>
  writes the header with status 200 first when none has been written.
\<close>

record ResponseWriter =
  status :: "nat option"
  written :: string

abbreviation StatusOK :: nat where "StatusOK \<equiv> 200"
abbreviation StatusBadRequest :: nat where "StatusBadRequest \<equiv> 400"

definition newResponseWriter :: ResponseWriter where
  "newResponseWriter = \<lparr>status = None, written = []\<rparr>"

definition WriteHeader :: "ResponseWriter \<Rightarrow> nat \<Rightarrow> ResponseWriter" where
  "WriteHeader w code = (if status w = None then w\<lparr>status := Some code\<rparr> else w)"

definition Write :: "ResponseWriter \<Rightarrow> string \<Rightarrow> ResponseWriter" where
  "Write w b = (let w' = WriteHeader w StatusOK in w'\<lparr>written := written w' @ b\<rparr>)"

text \<open>How a handler ends: it returns, or it panics.\<close>

datatype outcome = Returned | Panicked string

text \<open>
  What the client gets: a status with a body, a dropped connection, or the multiplexer's
  redirect, which is status 301 with the header \<open>Location\<close> set to the given path (the
  query of the request, which the location repeats, and the body of a redirect, a link
  for \<open>GET\<close> and nothing otherwise, are not modelled). Once
  the handler has returned the server completes the response, with status 200 when the
  handler wrote no header. A panic of the handler is recovered by the server, which
  drops the connection; none of the handlers below has written anything when it panics.
\<close>

datatype reply = Reply nat string | Aborted | MovedPermanently string

fun finish :: "outcome \<times> ResponseWriter \<Rightarrow> reply" where
  "finish (Returned, w) = Reply (case status w of None \<Rightarrow> StatusOK | Some s \<Rightarrow> s) (written w)"
| "finish (Panicked m, w) = Aborted"

subsection \<open>Requests and the standard library\<close>

text \<open>
  A request: method, the path of its URL as the multiplexer reads it, and what reading
  \<open>r.Body\<close> to its end gives, the bytes or the error of the read.
\<close>

record Request =
  Method :: string
  Path :: string
  Body :: "error + string"

text \<open>
  The library functions the handlers call. \<open>Unmarshal\<close> is \<open>json.Unmarshal\<close> into a
  \<open>Query\<close>; \<open>MarshalTimeseries\<close> and \<open>MarshalTable\<close> are \<open>json.Marshal\<close> at the two
  types it is called at, returning the error or the bytes; \<open>UnixNano k\<close> is
  \<open>time.Now().UnixNano()\<close> at the \<open>k\<close>-th call of \<open>time.Now\<close> while the request is
  served, counted from 0.
\<close>

record Runtime =
  Unmarshal :: "string \<Rightarrow> error + Query"
  MarshalTimeseries :: "TimeseriesResponse list \<Rightarrow> error + string"
  MarshalTable :: "TableResponse list \<Rightarrow> error + string"
  UnixNano :: "nat \<Rightarrow> 64 word"

text \<open>
  \<open>float64(int64(time.Now().UnixNano() / 1000000))\<close>: the division is Go's division of
  \<open>int64\<close>, which truncates towards zero.
\<close>

definition unixMilli :: "64 word \<Rightarrow> float64" where
  "unixMilli t = sint t sdiv 1000000"

subsection \<open>The handlers\<close>

text \<open>\<open>writeError\<close> (lines 164 to 168).\<close>

definition writeError :: "ResponseWriter \<Rightarrow> error \<Rightarrow> string \<Rightarrow> ResponseWriter" where
  "writeError w e m =
     Write (WriteHeader w StatusBadRequest) (''{\"error\": \"'' @ m @ '': '' @ Error e @ ''\"}'')"

text \<open>The slice literals \<open>response\<close> of \<open>sendTimeseries\<close> (lines 211 to 221) and of
  \<open>sendTable\<close> (lines 242 to 257). The calls of \<open>time.Now\<close> happen in the order of the
  lines.\<close>

definition timeseriesResponse :: "Runtime \<Rightarrow> QueryTarget \<Rightarrow> TimeseriesResponse list" where
  "timeseriesResponse rt t =
     [\<lparr>ts_Target = Target t,
       ts_Datapoints =
         [[68, unixMilli (UnixNano rt 0)],
          [49, unixMilli (UnixNano rt 1)],
          [2, unixMilli (UnixNano rt 2)],
          [11, unixMilli (UnixNano rt 3)]]\<rparr>]"

definition tableResponse :: "Runtime \<Rightarrow> TableResponse list" where
  "tableResponse rt =
     [\<lparr>Columns =
         [\<lparr>Text = ''Name'', col_Type = ''string''\<rparr>,
          \<lparr>Text = ''Value'', col_Type = ''number''\<rparr>,
          \<lparr>Text = ''Time'', col_Type = ''time''\<rparr>],
       Rows =
         [[CString ''Alpha'', CInt 68, CFloat (unixMilli (UnixNano rt 0))],
          [CString ''Bravo'', CInt 49, CFloat (unixMilli (UnixNano rt 1))],
          [CString ''Charlie'', CInt 2, CFloat (unixMilli (UnixNano rt 2))],
          [CString ''Delta'', CInt 11, CFloat (unixMilli (UnixNano rt 3))]],
       tbl_Type = ''table''\<rparr>]"

text \<open>
  \<open>sendTimeseries\<close> (lines 203 to 232). \<open>q.Targets[0]\<close> panics on an empty slice. When
  \<open>json.Marshal\<close> fails, \<open>writeError\<close> is called and the function goes on (there is no
  \<open>return\<close>) to \<open>w.Write(jsonResp)\<close>, where \<open>jsonResp\<close> is the nil slice that
  \<open>json.Marshal\<close> returns with an error.
\<close>

definition sendTimeseries :: "Runtime \<Rightarrow> ResponseWriter \<Rightarrow> Query \<Rightarrow> outcome \<times> ResponseWriter" where
  "sendTimeseries rt w q =
     (case Targets q of
        [] \<Rightarrow> (Panicked ''index out of range [0] with length 0'', w)
      | t # _ \<Rightarrow>
          (case MarshalTimeseries rt (timeseriesResponse rt t) of
             Inl err \<Rightarrow> (Returned, Write (writeError w err ''cannot marshal response'') [])
           | Inr jsonResp \<Rightarrow> (Returned, Write w jsonResp)))"

text \<open>\<open>sendTable\<close> (lines 234 to 268); it does not read the query.\<close>

definition sendTable :: "Runtime \<Rightarrow> ResponseWriter \<Rightarrow> Query \<Rightarrow> outcome \<times> ResponseWriter" where
  "sendTable rt w q =
     (case MarshalTable rt (tableResponse rt) of
        Inl err \<Rightarrow> (Returned, Write (writeError w err ''cannot marshal response'') [])
      | Inr jsonResp \<Rightarrow> (Returned, Write w jsonResp))"

text \<open>
  \<open>queryHandler\<close> (lines 170 to 201). The \<open>switch\<close> on the type of the first target has
  two cases and no default.
\<close>

definition queryHandler :: "Runtime \<Rightarrow> ResponseWriter \<Rightarrow> Request \<Rightarrow> outcome \<times> ResponseWriter" where
  "queryHandler rt w r =
     (case Body r of
        Inl err \<Rightarrow> (Returned, writeError w err ''Cannot read request body'')
      | Inr bytes \<Rightarrow>
          (case Unmarshal rt bytes of
             Inl err \<Rightarrow> (Returned, writeError w err ''cannot unmarshal request body'')
           | Inr query \<Rightarrow>
               (case Targets query of
                  [] \<Rightarrow> (Panicked ''index out of range [0] with length 0'', w)
                | t # _ \<Rightarrow>
                    if Type t = ''timeserie'' then sendTimeseries rt w query
                    else if Type t = ''table'' then sendTable rt w query
                    else (Returned, w))))"

text \<open>The handler that \<open>main\<close> registers for the pattern \<open>/\<close> (lines 272 to 278).\<close>

definition rootHandler :: "ResponseWriter \<Rightarrow> Request \<Rightarrow> outcome \<times> ResponseWriter" where
  "rootHandler w r = (Returned, WriteHeader w StatusOK)"

subsection \<open>The multiplexer\<close>

text \<open>
  \<open>main\<close> registers the two handlers with the default \<open>http.ServeMux\<close> (lines 272 and
  280) and serves with it (line 285). The multiplexer is part of the standard library;
  what it does before it calls a handler is modelled here as far as the two patterns
  \<open>/\<close> and \<open>/query\<close> need it.

  \<open>pathClean\<close> is \<open>path.Clean\<close> on a path that begins with a slash: empty elements and
  \<open>.\<close> are dropped, \<open>..\<close> drops the element before it, or nothing at the root.
  \<open>cleanPath\<close> is the function of that name in \<open>net/http\<close>: it puts a slash in front
  of a path that has none, cleans the path, and keeps a trailing slash.
\<close>

fun splitSlash :: "string \<Rightarrow> string list" where
  "splitSlash [] = [[]]"
| "splitSlash (c # cs) =
     (if c = CHR ''/'' then [] # splitSlash cs
      else (case splitSlash cs of [] \<Rightarrow> [[c]] | e # es \<Rightarrow> (c # e) # es))"

fun cleanStep :: "string list \<Rightarrow> string \<Rightarrow> string list" where
  "cleanStep st e =
     (if e = [] then st else if e = ''.'' then st else if e = ''..'' then tl st else e # st)"

definition pathClean :: "string \<Rightarrow> string" where
  "pathClean p =
     (let es = rev (foldl cleanStep [] (splitSlash p))
      in if es = [] then ''/'' else concat (map (\<lambda>e. CHR ''/'' # e) es))"

definition cleanPath :: "string \<Rightarrow> string" where
  "cleanPath p =
     (if p = [] then ''/''
      else let p' = (if hd p = CHR ''/'' then p else CHR ''/'' # p);
               np = pathClean p'
           in if last p' = CHR ''/'' then (if np = ''/'' then np else np @ ''/'') else np)"

text \<open>The server sends no body in the response to a \<open>HEAD\<close> request.\<close>

fun sent :: "string \<Rightarrow> reply \<Rightarrow> reply" where
  "sent m (Reply s b) = Reply s (if m = ''HEAD'' then [] else b)"
| "sent m Aborted = Aborted"
| "sent m (MovedPermanently l) = MovedPermanently l"

text \<open>
  The choice of the handler: the pattern \<open>/query\<close> matches that path only, the pattern
  \<open>/\<close> every other path that begins with a slash, and a path without a slash (the empty
  path of a \<open>CONNECT\<close> request) finds no handler and gets the answer of
  \<open>http.NotFound\<close>.
\<close>

definition dispatch :: "Runtime \<Rightarrow> Request \<Rightarrow> reply" where
  "dispatch rt r =
     sent (Method r)
       (if Path r = ''/query'' then finish (queryHandler rt newResponseWriter r)
        else if take 1 (Path r) = ''/'' then finish (rootHandler newResponseWriter r)
        else Reply 404 (''404 page not found'' @ [CHR 0x0A]))"

text \<open>
  \<open>ServeMux.ServeHTTP\<close>: the request \<open>*\<close> (the only one whose path is \<open>*\<close>) is
  answered with status 400; the path of a request other than \<open>CONNECT\<close> is cleaned, and
  when cleaning changes it the multiplexer itself answers with a redirect to the cleaned
  path and calls no handler. The redirect from a path to the same path with a slash
  appended never applies to the two patterns registered here.
\<close>

definition serve :: "Runtime \<Rightarrow> Request \<Rightarrow> reply" where
  "serve rt r =
     (if Path r = ''*'' then Reply StatusBadRequest []
      else if Method r = ''CONNECT'' then dispatch rt r
      else if cleanPath (Path r) = Path r then dispatch rt r
      else MovedPermanently (cleanPath (Path r)))"

section \<open>The metric store\<close>

text \<open>
  The example programs of the repository create metrics and append to them through the
  package \<open>github.com/christophberger/grada\<close>, whose source is not part of the
  repository: only the calls \<open>CreateMetric\<close>, \<open>CreateMetricWithBufSize\<close> and \<open>Add\<close>
  are. The store is therefore modelled from the specification (sections 3, 4.1 and 9).
  The store copies sample values and never computes with them; a value is a \<open>real\<close>.
\<close>

text \<open>
  Modelled from the spec: the declarations of the store are missing from the sources. A
  Sample is ``an immutable pair \<open>{value: float64, timestamp: instant}\<close>''; the errors
  are those of the taxonomy of section 7 that concern the store; a Metric holds its name
  and \<open>capacity\<close>, \<open>buffer\<close>, \<open>writeCursor\<close> and \<open>count\<close> as section 3 lists them.
\<close>

type_synonym Sample = "real \<times> Time"

datatype store_error = DuplicateMetric | InvalidCapacity | UnknownMetric

record Metric =
  name :: string
  capacity :: nat
  buffer :: "Sample list"
  writeCursor :: nat
  count :: nat

text \<open>
  Modelled from the spec: \<open>create(name, capacity)\<close> of the Metric Store is missing from
  the sources. It ``fails with DuplicateMetric if name already exists in the owning
  Registry; fails with InvalidCapacity if capacity \<open>\<le>\<close> 0''. The buffer is the array of
  section 9, ``an array-backed structure with two integer cursors (write position,
  logical count)'', of \<open>capacity\<close> slots.
\<close>

definition create :: "(string \<rightharpoonup> Metric) \<Rightarrow> string \<Rightarrow> int \<Rightarrow> store_error + Metric" where
  "create registry n c =
     (if registry n \<noteq> None then Inl DuplicateMetric
      else if c \<le> 0 then Inl InvalidCapacity
      else Inr \<lparr>name = n, capacity = nat c, buffer = replicate (nat c) (0, 0),
                writeCursor = 0, count = 0\<rparr>)"

text \<open>
  Modelled from the spec: \<open>add(value)\<close> is missing from the sources. It ``appends a
  Sample with the current timestamp. Side effect: if count == capacity, the oldest sample
  (at the current writeCursor) is overwritten''. The current timestamp is the argument
  \<open>now\<close>.
\<close>

definition add :: "Metric \<Rightarrow> real \<Rightarrow> Time \<Rightarrow> Metric" where
  "add m v now =
     m\<lparr>buffer := (buffer m)[writeCursor m := (v, now)],
       writeCursor := (writeCursor m + 1) mod capacity m,
       count := min (count m + 1) (capacity m)\<rparr>"

text \<open>
  Modelled from the spec: \<open>snapshot(maxPoints)\<close> is missing from the sources. It
  ``returns a defensive copy of up to maxPoints most-recent samples in chronological
  order'' and ``an empty sequence if no samples yet exist''. \<open>None\<close> is the absent point
  limit. The copy starts \<open>k\<close> slots before the write cursor and reads \<open>k\<close> slots, going
  round the end of the array.
\<close>

definition snapshot :: "Metric \<Rightarrow> nat option \<Rightarrow> Sample list" where
  "snapshot m maxPoints =
     (let k = (case maxPoints of None \<Rightarrow> count m | Some p \<Rightarrow> min p (count m));
          start = (writeCursor m + capacity m - k) mod capacity m
      in map (\<lambda>i. buffer m ! ((start + i) mod capacity m)) [0..<k])"

text \<open>A sequence of calls of \<open>add\<close>, each sample with the timestamp of its call.\<close>

definition addAll :: "Metric \<Rightarrow> Sample list \<Rightarrow> Metric" where
  "addAll m xs = foldl (\<lambda>m' (v, now). add m' v now) m xs"

text \<open>
  The invariant of a store of capacity \<open>c\<close> that has been sent the samples \<open>xs\<close>: the
  cursors count the samples modulo the capacity, and sample number \<open>j\<close>, as long as it is
  among the last \<open>c\<close>, sits in slot \<open>j mod c\<close>.
\<close>

definition holds :: "Metric \<Rightarrow> nat \<Rightarrow> Sample list \<Rightarrow> bool" where
  "holds m c xs \<longleftrightarrow>
     capacity m = c \<and> length (buffer m) = c \<and>
     count m = min (length xs) c \<and> writeCursor m = length xs mod c \<and>
     (\<forall>j < length xs. length xs - j \<le> c \<longrightarrow> buffer m ! (j mod c) = xs ! j)"

section \<open>Instances of the standard library for closed examples\<close>

text \<open>
  The theorems about the handlers hold for every \<open>Runtime\<close>. The closed examples need
  one. Its encoders write what \<open>json.Marshal\<close> writes for the two response types, with
  the keys of the struct tags and no white space: a whole \<open>float64\<close> below \<open>10 ^ 21\<close>
  and an \<open>int\<close> in decimal, a string in double quotes. \<open>jsonString\<close> escapes the double
  quote and the backslash only, which is all that \<open>json.Marshal\<close> does on printable
  ASCII without \<open><\<close>, \<open>>\<close> and \<open>&\<close>; the examples use such names only. Neither
  encoder fails, as \<open>json.Marshal\<close> does not on these types with finite numbers.
\<close>

fun decimal :: "nat \<Rightarrow> string" where
  "decimal n =
     (if n < 10 then [''0123456789'' ! n] else decimal (n div 10) @ [''0123456789'' ! (n mod 10)])"

declare decimal.simps [simp del]

definition showInt :: "int \<Rightarrow> string" where
  "showInt i = (if i < 0 then ''-'' @ decimal (nat (- i)) else decimal (nat i))"

fun commaSep :: "string list \<Rightarrow> string" where
  "commaSep [] = []"
| "commaSep [x] = x"
| "commaSep (x # y # ys) = x @ '','' @ commaSep (y # ys)"

definition jsonString :: "string \<Rightarrow> string" where
  "jsonString s =
     [CHR 0x22] @
     concat (map (\<lambda>c. if c = CHR 0x22 \<or> c = CHR 0x5C then [CHR 0x5C, c] else [c]) s) @
     [CHR 0x22]"

definition jsonArray :: "string list \<Rightarrow> string" where
  "jsonArray xs = ''['' @ commaSep xs @ '']''"

definition jsonTimeseries :: "TimeseriesResponse list \<Rightarrow> error + string" where
  "jsonTimeseries rs =
     Inr (jsonArray (map (\<lambda>r.
       ''{\"target\":'' @ jsonString (ts_Target r) @
       '',\"datapoints\":'' @ jsonArray (map (\<lambda>p. jsonArray (map showInt p)) (ts_Datapoints r)) @
       ''}'') rs))"

fun jsonCell :: "cell \<Rightarrow> string" where
  "jsonCell (CString s) = jsonString s"
| "jsonCell (CInt i) = showInt i"
| "jsonCell (CFloat f) = showInt f"

definition jsonColumn :: "Column \<Rightarrow> string" where
  "jsonColumn c =
     ''{\"text\":'' @ jsonString (Text c) @ '',\"type\":'' @ jsonString (col_Type c) @ ''}''"

definition jsonTable :: "TableResponse list \<Rightarrow> error + string" where
  "jsonTable rs =
     Inr (jsonArray (map (\<lambda>r.
       ''{\"columns\":'' @ jsonArray (map jsonColumn (Columns r)) @
       '',\"rows\":'' @ jsonArray (map (\<lambda>row. jsonArray (map jsonCell row)) (Rows r)) @
       '',\"type\":'' @ jsonString (tbl_Type r) @ ''}'') rs))"

text \<open>
  A decoder given by a table: the request bodies of the examples, each with the \<open>Query\<close>
  that \<open>json.Unmarshal\<close> decodes it to. Off the table it returns the error of
  \<open>json.Unmarshal\<close> on the empty body; the examples apply it to the bodies of the table
  and to the empty body only.
\<close>

definition decodeFrom :: "(string \<times> Query) list \<Rightarrow> string \<Rightarrow> error + Query" where
  "decodeFrom tbl b =
     (case map_of tbl b of
        None \<Rightarrow> Inl (GoError ''unexpected end of JSON input'')
      | Some q \<Rightarrow> Inr q)"

definition exampleRuntime :: "(string \<times> Query) list \<Rightarrow> (nat \<Rightarrow> 64 word) \<Rightarrow> Runtime" where
  "exampleRuntime tbl clk =
     \<lparr>Unmarshal = decodeFrom tbl, MarshalTimeseries = jsonTimeseries,
      MarshalTable = jsonTable, UnixNano = clk\<rparr>"

text \<open>The zero value of \<open>Query\<close>, which \<open>json.Unmarshal\<close> fills from the body, and a query
  that the body sets the targets of only.\<close>

definition zeroQuery :: Query where
  "zeroQuery =
     \<lparr>PanelID = 0, Range_From = 0, Range_To = 0, Range_Raw_From = [], Range_Raw_To = [],
      RangeRaw_From = [], RangeRaw_To = [], Interval = [], IntervalMs = 0, Targets = [],
      Format = [], MaxDataPoints = 0\<rparr>"

definition queryFor :: "(string \<times> string) list \<Rightarrow> Query" where
  "queryFor ts = zeroQuery\<lparr>Targets := map (\<lambda>(n, ty). \<lparr>Target = n, RefID = [], Type = ty\<rparr>) ts\<rparr>"

text \<open>A clock whose four readings fall into one millisecond, 400 nanoseconds apart, and
  one that advances by a millisecond from call to call.\<close>

definition fastClock :: "nat \<Rightarrow> 64 word" where
  "fastClock k = 1509372000000000000 + 400 * of_nat k"

definition slowClock :: "nat \<Rightarrow> 64 word" where
  "slowClock k = 1509372000000000000 + 1000000 * of_nat k"

definition post :: "string \<Rightarrow> Request" where
  "post b = \<lparr>Method = ''POST'', Path = ''/query'', Body = Inr b\<rparr>"

text \<open>The request bodies of the examples and what they decode to.\<close>

definition body_cpu1_timeserie :: string where
  "body_cpu1_timeserie = ''{\"targets\":[{\"target\":\"CPU1\",\"type\":\"timeserie\"}]}''"

definition body_cpu9_timeserie :: string where
  "body_cpu9_timeserie = ''{\"targets\":[{\"target\":\"CPU9\",\"type\":\"timeserie\"}]}''"

definition body_cpu1_table :: string where
  "body_cpu1_table = ''{\"targets\":[{\"target\":\"CPU1\",\"type\":\"table\"}]}''"

definition body_cpu1_heatmap :: string where
  "body_cpu1_heatmap = ''{\"targets\":[{\"target\":\"CPU1\",\"type\":\"heatmap\"}]}''"

definition body_two_targets :: string where
  "body_two_targets =
     ''{\"targets\":[{\"target\":\"CPU1\",\"type\":\"timeserie\"},{\"target\":\"CPU2\",\"type\":\"timeserie\"}]}''"

definition body_cpu1_more :: string where
  "body_cpu1_more =
     ''{\"targets\":[{\"target\":\"CPU1\",\"refId\":\"A\",\"type\":\"timeserie\"},{\"target\":\"CPU2\",\"type\":\"table\"}],\"maxDataPoints\":2}''"

definition body_no_targets :: string where
  "body_no_targets = ''{}''"

definition exampleBodies :: "(string \<times> Query) list" where
  "exampleBodies =
     [(body_cpu1_timeserie, queryFor [(''CPU1'', ''timeserie'')]),
      (body_cpu9_timeserie, queryFor [(''CPU9'', ''timeserie'')]),
      (body_cpu1_table, queryFor [(''CPU1'', ''table'')]),
      (body_cpu1_heatmap, queryFor [(''CPU1'', ''heatmap'')]),
      (body_two_targets, queryFor [(''CPU1'', ''timeserie''), (''CPU2'', ''timeserie'')]),
      (body_cpu1_more,
       zeroQuery\<lparr>Targets := [\<lparr>Target = ''CPU1'', RefID = ''A'', Type = ''timeserie''\<rparr>,
                             \<lparr>Target = ''CPU2'', RefID = [], Type = ''table''\<rparr>],
                  MaxDataPoints := 2\<rparr>),
      (body_no_targets, zeroQuery)]"

text \<open>The replies with a status of the class of client errors.\<close>

fun clientError :: "reply \<Rightarrow> bool" where
  "clientError (Reply s b) = (400 \<le> s \<and> s < 500)"
| "clientError Aborted = False"
| "clientError (MovedPermanently l) = False"


section \<open>Properties of the handlers\<close>

subsection \<open>Evaluation\<close>

lemma decimal_small: "n < 10 \<Longrightarrow> decimal n = [''0123456789'' ! n]"
  by (simp add: decimal.simps)

lemma decimal_big:
  "\<not> n < 10 \<Longrightarrow> decimal n = decimal (n div 10) @ [''0123456789'' ! (n mod 10)]"
  by (subst decimal.simps) simp

lemmas json_eval =
  decimal_small decimal_big showInt_def jsonString_def jsonArray_def jsonTimeseries_def
  jsonTable_def jsonColumn_def

lemmas example_eval =
  unixMilli_def fastClock_def slowClock_def decodeFrom_def exampleRuntime_def zeroQuery_def
  queryFor_def post_def exampleBodies_def body_cpu1_timeserie_def body_cpu9_timeserie_def
  body_cpu1_table_def body_cpu1_heatmap_def body_two_targets_def body_cpu1_more_def
  body_no_targets_def

lemmas handler_eval =
  serve_def dispatch_def cleanPath_def pathClean_def queryHandler_def sendTimeseries_def sendTable_def timeseriesResponse_def
  tableResponse_def writeError_def Write_def WriteHeader_def newResponseWriter_def
  rootHandler_def

subsection \<open>The millisecond timestamp\<close>

lemma sint64_range: "- (2 ^ 63) \<le> sint (t :: 64 word) \<and> sint t < 2 ^ 63"
  using sint_range_size [of t] by (simp add: word_size)

lemma sdiv_pos_eq:
  fixes k l :: int
  assumes "0 < l"
  shows "k sdiv l = (if 0 \<le> k then k div l else - ((- k) div l))"
  using assms by (auto simp: signed_divide_int_def sgn_if)

lemma unixMilli_exact: "\<bar>unixMilli t\<bar> < 2 ^ 53"
proof -
  have r: "- (2 ^ 63) \<le> sint t" "sint t < 2 ^ 63"
    using sint64_range [of t] by simp_all
  show ?thesis
  proof (cases "0 \<le> sint t")
    case True
    then have "unixMilli t = sint t div 1000000"
      by (simp add: unixMilli_def sdiv_pos_eq)
    moreover have "sint t div 1000000 \<le> 2 ^ 63 div 1000000"
      using r(2) by (intro zdiv_mono1) simp_all
    moreover have "0 \<le> sint t div 1000000"
      using True by simp
    ultimately show ?thesis by simp
  next
    case False
    then have "unixMilli t = - ((- sint t) div 1000000)"
      by (simp add: unixMilli_def sdiv_pos_eq)
    moreover have "(- sint t) div 1000000 \<le> 2 ^ 63 div 1000000"
      using r(1) by (intro zdiv_mono1) simp_all
    moreover have "0 \<le> (- sint t) div 1000000"
      using False by simp
    ultimately show ?thesis by simp
  qed
qed

lemma unixMilli_mono:
  assumes "sint a \<le> sint b"
  shows "unixMilli a \<le> unixMilli b"
proof -
  consider "0 \<le> sint a" | "sint a < 0" "0 \<le> sint b" | "sint a < 0" "sint b < 0"
    by linarith
  then show ?thesis
  proof cases
    case 1
    then have "0 \<le> sint b" using assms by simp
    with 1 assms show ?thesis
      by (simp add: unixMilli_def sdiv_pos_eq zdiv_mono1)
  next
    case 2
    have "0 \<le> (- sint a) div 1000000" using 2 by simp
    moreover have "0 \<le> sint b div 1000000" using 2 by simp
    ultimately show ?thesis using 2
      by (simp add: unixMilli_def sdiv_pos_eq)
  next
    case 3
    have "(- sint b) div 1000000 \<le> (- sint a) div 1000000"
      using assms by (intro zdiv_mono1) simp_all
    with 3 show ?thesis
      by (simp add: unixMilli_def sdiv_pos_eq)
  qed
qed

subsection \<open>The query handler, case by case\<close>

lemma queryHandler_unreadable:
  "Body r = Inl e \<Longrightarrow>
   finish (queryHandler rt newResponseWriter r) =
     Reply StatusBadRequest (''{\"error\": \"Cannot read request body: '' @ Error e @ ''\"}'')"
  by (simp add: queryHandler_def writeError_def Write_def WriteHeader_def newResponseWriter_def)

lemma queryHandler_undecodable:
  "Body r = Inr b \<Longrightarrow> Unmarshal rt b = Inl e \<Longrightarrow>
   finish (queryHandler rt newResponseWriter r) =
     Reply StatusBadRequest (''{\"error\": \"cannot unmarshal request body: '' @ Error e @ ''\"}'')"
  by (simp add: queryHandler_def writeError_def Write_def WriteHeader_def newResponseWriter_def)

lemma queryHandler_decoded:
  "Body r = Inr b \<Longrightarrow> Unmarshal rt b = Inr q \<Longrightarrow> Targets q = t # ts \<Longrightarrow>
   queryHandler rt w r =
     (if Type t = ''timeserie'' then sendTimeseries rt w q
      else if Type t = ''table'' then sendTable rt w q
      else (Returned, w))"
  by (simp add: queryHandler_def)

lemma sendTimeseries_encoded:
  "Targets q = t # ts \<Longrightarrow> MarshalTimeseries rt (timeseriesResponse rt t) = Inr s \<Longrightarrow>
   sendTimeseries rt newResponseWriter q = (Returned, \<lparr>status = Some StatusOK, written = s\<rparr>)"
  by (simp add: sendTimeseries_def Write_def WriteHeader_def newResponseWriter_def)

lemma sendTable_encoded:
  "MarshalTable rt (tableResponse rt) = Inr s \<Longrightarrow>
   sendTable rt newResponseWriter q = (Returned, \<lparr>status = Some StatusOK, written = s\<rparr>)"
  by (simp add: sendTable_def Write_def WriteHeader_def newResponseWriter_def)

lemma sendTimeseries_not_encoded:
  "Targets q = t # ts \<Longrightarrow> MarshalTimeseries rt (timeseriesResponse rt t) = Inl e \<Longrightarrow>
   sendTimeseries rt newResponseWriter q =
     (Returned, \<lparr>status = Some StatusBadRequest,
                 written = ''{\"error\": \"cannot marshal response: '' @ Error e @ ''\"}''\<rparr>)"
  by (simp add: sendTimeseries_def writeError_def Write_def WriteHeader_def newResponseWriter_def)

lemma sendTable_not_encoded:
  "MarshalTable rt (tableResponse rt) = Inl e \<Longrightarrow>
   sendTable rt newResponseWriter q =
     (Returned, \<lparr>status = Some StatusBadRequest,
                 written = ''{\"error\": \"cannot marshal response: '' @ Error e @ ''\"}''\<rparr>)"
  by (simp add: sendTable_def writeError_def Write_def WriteHeader_def newResponseWriter_def)

subsection \<open>The root handler\<close>

text \<open>The result of \<open>cleanPath\<close> begins with a slash.\<close>

lemma pathClean_slash: "\<exists>q. pathClean p = CHR ''/'' # q"
proof (cases "rev (foldl cleanStep [] (splitSlash p))")
  case Nil
  then show ?thesis by (simp add: pathClean_def)
next
  case (Cons e es)
  then show ?thesis by (simp add: pathClean_def)
qed

lemma cleanPath_slash: "\<exists>q. cleanPath p = CHR ''/'' # q"
proof (cases "p = []")
  case True
  then show ?thesis by (simp add: cleanPath_def)
next
  case False
  define p' where "p' = (if hd p = CHR ''/'' then p else CHR ''/'' # p)"
  obtain q where q: "pathClean p' = CHR ''/'' # q"
    using pathClean_slash by blast
  have "cleanPath p = pathClean p' \<or> cleanPath p = pathClean p' @ ''/''"
    using False by (simp add: cleanPath_def Let_def p'_def)
  then show ?thesis
    using q by auto
qed

text \<open>
  Claim C9 says that every request whose path is not \<open>/query\<close> is answered by the root
  handler with status 200 and an empty body. The path \<open>//search\<close> is not \<open>/query\<close>, and
  the multiplexer answers it with a redirect to \<open>/search\<close> without calling the handler.
\<close>

theorem noncanonical_path_counterexample:
  "Path \<lparr>Method = ''GET'', Path = ''//search'', Body = Inr []\<rparr> \<noteq> ''/query'' \<and>
   serve (exampleRuntime exampleBodies fastClock)
     \<lparr>Method = ''GET'', Path = ''//search'', Body = Inr []\<rparr> = MovedPermanently ''/search'' \<and>
   serve (exampleRuntime exampleBodies fastClock)
     \<lparr>Method = ''GET'', Path = ''//search'', Body = Inr []\<rparr> \<noteq> Reply StatusOK []"
  by (simp add: serve_def cleanPath_def pathClean_def)

text \<open>
  Claim C9, amended. The root handler answers every request that it is called with,
  whatever its method, path and body, with status 200 and an empty body; and it is
  called for every request whose path is in canonical form (cleaning leaves it as it is)
  and is not \<open>/query\<close>, whatever the method and the body of the request.
\<close>

theorem root_handler_answers_canonical_paths:
  "finish (rootHandler newResponseWriter r) = Reply StatusOK [] \<and>
   (cleanPath (Path r) = Path r \<and> Path r \<noteq> ''/query'' \<longrightarrow> serve rt r = Reply StatusOK [])"
proof (intro conjI impI)
  show root: "finish (rootHandler newResponseWriter r) = Reply StatusOK []"
    by (simp add: rootHandler_def WriteHeader_def newResponseWriter_def)
  assume p: "cleanPath (Path r) = Path r \<and> Path r \<noteq> ''/query''"
  then obtain q where slash: "Path r = CHR ''/'' # q"
    using cleanPath_slash [of "Path r"] by auto
  then have "Path r \<noteq> ''*''"
    by simp
  moreover have "dispatch rt r = Reply StatusOK []"
    using p slash root by (simp add: dispatch_def)
  ultimately show "serve rt r = Reply StatusOK []"
    using p by (simp add: serve_def)
qed

text \<open>The witness of the amended C9: a \<open>DELETE\<close> request to \<open>/search\<close> with a body.\<close>

theorem root_handler_answers_canonical_paths_witness:
  "cleanPath (Path \<lparr>Method = ''DELETE'', Path = ''/search'', Body = Inr ''{\"target\":\"CPU\"}''\<rparr>) =
     Path \<lparr>Method = ''DELETE'', Path = ''/search'', Body = Inr ''{\"target\":\"CPU\"}''\<rparr> \<and>
   Path \<lparr>Method = ''DELETE'', Path = ''/search'', Body = Inr ''{\"target\":\"CPU\"}''\<rparr> \<noteq> ''/query'' \<and>
   serve (exampleRuntime exampleBodies fastClock)
     \<lparr>Method = ''DELETE'', Path = ''/search'', Body = Inr ''{\"target\":\"CPU\"}''\<rparr> = Reply StatusOK []"
proof -
  let ?r = "\<lparr>Method = ''DELETE'', Path = ''/search'', Body = Inr ''{\"target\":\"CPU\"}''\<rparr>"
  have c: "cleanPath (Path ?r) = Path ?r \<and> Path ?r \<noteq> ''/query''"
    by (simp add: cleanPath_def pathClean_def)
  from root_handler_answers_canonical_paths [of ?r "exampleRuntime exampleBodies fastClock"] c
  show ?thesis by simp
qed

subsection \<open>What a query's reply depends on\<close>

text \<open>
  Claim C10. With the same clock (and the same library), two requests whose bodies decode
  to queries with equal first targets, in name and type, are handled alike: the writer
  ends in the same state. Further targets, the reference id, the time range and
  \<open>maxDataPoints\<close> are not read.
\<close>

theorem query_reply_depends_on_first_target_only:
  assumes "Body r1 = Inr b1" and "Unmarshal rt b1 = Inr q1" and "Targets q1 = t1 # ts1"
    and "Body r2 = Inr b2" and "Unmarshal rt b2 = Inr q2" and "Targets q2 = t2 # ts2"
    and "Target t1 = Target t2" and "Type t1 = Type t2"
  shows "queryHandler rt w r1 = queryHandler rt w r2"
  using assms
  by (simp add: queryHandler_def sendTimeseries_def sendTable_def timeseriesResponse_def)

text \<open>
  The witness of C10: a query for CPU1 alone, and one that also asks for CPU2 as a table,
  sets a reference id and bounds the number of points.
\<close>

theorem query_reply_depends_on_first_target_only_witness:
  "Body (post body_cpu1_timeserie) = Inr body_cpu1_timeserie \<and>
   Unmarshal (exampleRuntime exampleBodies fastClock) body_cpu1_timeserie =
     Inr (queryFor [(''CPU1'', ''timeserie'')]) \<and>
   Targets (queryFor [(''CPU1'', ''timeserie'')]) =
     \<lparr>Target = ''CPU1'', RefID = [], Type = ''timeserie''\<rparr> # [] \<and>
   Body (post body_cpu1_more) = Inr body_cpu1_more \<and>
   Unmarshal (exampleRuntime exampleBodies fastClock) body_cpu1_more =
     Inr (zeroQuery\<lparr>Targets := [\<lparr>Target = ''CPU1'', RefID = ''A'', Type = ''timeserie''\<rparr>,
                                  \<lparr>Target = ''CPU2'', RefID = [], Type = ''table''\<rparr>],
                       MaxDataPoints := 2\<rparr>) \<and>
   queryHandler (exampleRuntime exampleBodies fastClock) newResponseWriter (post body_cpu1_timeserie) =
   queryHandler (exampleRuntime exampleBodies fastClock) newResponseWriter (post body_cpu1_more)"
proof -
  let ?rt = "exampleRuntime exampleBodies fastClock"
  let ?q2 = "zeroQuery\<lparr>Targets := [\<lparr>Target = ''CPU1'', RefID = ''A'', Type = ''timeserie''\<rparr>,
                                  \<lparr>Target = ''CPU2'', RefID = [], Type = ''table''\<rparr>],
                       MaxDataPoints := 2\<rparr>"
  have b1: "Body (post body_cpu1_timeserie) = Inr body_cpu1_timeserie"
    by (simp add: post_def)
  have u1: "Unmarshal ?rt body_cpu1_timeserie = Inr (queryFor [(''CPU1'', ''timeserie'')])"
    by (simp add: example_eval)
  have t1: "Targets (queryFor [(''CPU1'', ''timeserie'')]) =
      \<lparr>Target = ''CPU1'', RefID = [], Type = ''timeserie''\<rparr> # []"
    by (simp add: queryFor_def zeroQuery_def)
  have b2: "Body (post body_cpu1_more) = Inr body_cpu1_more"
    by (simp add: post_def)
  have u2: "Unmarshal ?rt body_cpu1_more = Inr ?q2"
    by (simp add: example_eval)
  have t2: "Targets ?q2 = \<lparr>Target = ''CPU1'', RefID = ''A'', Type = ''timeserie''\<rparr> #
      [\<lparr>Target = ''CPU2'', RefID = [], Type = ''table''\<rparr>]"
    by (simp add: zeroQuery_def)
  have "queryHandler ?rt newResponseWriter (post body_cpu1_timeserie) =
      queryHandler ?rt newResponseWriter (post body_cpu1_more)"
    by (rule query_reply_depends_on_first_target_only [OF b1 u1 t1 b2 u2 t2]) simp_all
  with b1 u1 t1 b2 u2 show ?thesis by simp
qed

subsection \<open>The reply to a time series query\<close>

text \<open>
  Claim C2 says that the query for CPU1, after 68, 49, 2 and 11 were added to a metric of
  capacity 3, is answered with the three datapoints of 49, 2 and 11, with strictly
  increasing timestamps. The handler consults no metric: with four clock readings within
  one millisecond the reply has four datapoints, 68 among them, with equal timestamps.
\<close>

theorem cpu1_timeserie_reply_counterexample:
  "serve (exampleRuntime exampleBodies fastClock) (post body_cpu1_timeserie) =
     Reply StatusOK
       ''[{\"target\":\"CPU1\",\"datapoints\":[[68,1509372000000],[49,1509372000000],[2,1509372000000],[11,1509372000000]]}]'' \<and>
   timeseriesResponse (exampleRuntime exampleBodies fastClock)
       \<lparr>Target = ''CPU1'', RefID = [], Type = ''timeserie''\<rparr> =
     [\<lparr>ts_Target = ''CPU1'',
       ts_Datapoints = [[68, 1509372000000], [49, 1509372000000],
                        [2, 1509372000000], [11, 1509372000000]]\<rparr>]"
  by (simp add: handler_eval example_eval json_eval)

text \<open>
  Claim C2, amended. A query whose first target is CPU1 with type \<open>timeserie\<close> is
  answered with status 200 and the encoding of exactly one object with target CPU1, whose
  datapoints are the four pairs of 68, 49, 2 and 11, each with the millisecond reading of
  the clock when the pair is built; the timestamps do not decrease when the clock does
  not go back.
\<close>

theorem cpu1_timeserie_reply:
  assumes "Body r = Inr b" and "Unmarshal rt b = Inr q" and "Targets q = t # ts"
    and "Target t = ''CPU1''" and "Type t = ''timeserie''"
    and "MarshalTimeseries rt
           [\<lparr>ts_Target = ''CPU1'',
             ts_Datapoints = [[68, unixMilli (UnixNano rt 0)], [49, unixMilli (UnixNano rt 1)],
                              [2, unixMilli (UnixNano rt 2)], [11, unixMilli (UnixNano rt 3)]]\<rparr>] = Inr s"
    and "sint (UnixNano rt 0) \<le> sint (UnixNano rt 1)"
    and "sint (UnixNano rt 1) \<le> sint (UnixNano rt 2)"
    and "sint (UnixNano rt 2) \<le> sint (UnixNano rt 3)"
  shows "finish (queryHandler rt newResponseWriter r) = Reply StatusOK s \<and>
     unixMilli (UnixNano rt 0) \<le> unixMilli (UnixNano rt 1) \<and>
     unixMilli (UnixNano rt 1) \<le> unixMilli (UnixNano rt 2) \<and>
     unixMilli (UnixNano rt 2) \<le> unixMilli (UnixNano rt 3)"
proof -
  have "MarshalTimeseries rt (timeseriesResponse rt t) = Inr s"
    using assms(4,6) by (simp add: timeseriesResponse_def)
  then have "sendTimeseries rt newResponseWriter q =
      (Returned, \<lparr>status = Some StatusOK, written = s\<rparr>)"
    using assms(3) by (rule sendTimeseries_encoded [rotated])
  then have "finish (queryHandler rt newResponseWriter r) = Reply StatusOK s"
    using assms(1,2,3,5) by (simp add: queryHandler_decoded)
  then show ?thesis
    using assms(7,8,9) by (simp add: unixMilli_mono)
qed

text \<open>The witness of the amended C2, with a clock that advances a millisecond per call.\<close>

theorem cpu1_timeserie_reply_witness:
  "Body (post body_cpu1_timeserie) = Inr body_cpu1_timeserie \<and>
   Unmarshal (exampleRuntime exampleBodies slowClock) body_cpu1_timeserie =
     Inr (queryFor [(''CPU1'', ''timeserie'')]) \<and>
   sint (slowClock 0) \<le> sint (slowClock 1) \<and>
   sint (slowClock 1) \<le> sint (slowClock 2) \<and>
   sint (slowClock 2) \<le> sint (slowClock 3) \<and>
   finish (queryHandler (exampleRuntime exampleBodies slowClock) newResponseWriter
            (post body_cpu1_timeserie)) =
     Reply StatusOK
       ''[{\"target\":\"CPU1\",\"datapoints\":[[68,1509372000000],[49,1509372000001],[2,1509372000002],[11,1509372000003]]}]''"
proof -
  let ?rt = "exampleRuntime exampleBodies slowClock"
  let ?t = "\<lparr>Target = ''CPU1'', RefID = [], Type = ''timeserie''\<rparr>"
  have b: "Body (post body_cpu1_timeserie) = Inr body_cpu1_timeserie"
    by (simp add: post_def)
  have u: "Unmarshal ?rt body_cpu1_timeserie = Inr (queryFor [(''CPU1'', ''timeserie'')])"
    by (simp add: example_eval)
  have ts: "Targets (queryFor [(''CPU1'', ''timeserie'')]) = ?t # []"
    by (simp add: queryFor_def zeroQuery_def)
  have n: "Target ?t = ''CPU1''" and ty: "Type ?t = ''timeserie''"
    by simp_all
  have m: "MarshalTimeseries ?rt
           [\<lparr>ts_Target = ''CPU1'',
             ts_Datapoints = [[68, unixMilli (UnixNano ?rt 0)], [49, unixMilli (UnixNano ?rt 1)],
                              [2, unixMilli (UnixNano ?rt 2)], [11, unixMilli (UnixNano ?rt 3)]]\<rparr>] =
     Inr ''[{\"target\":\"CPU1\",\"datapoints\":[[68,1509372000000],[49,1509372000001],[2,1509372000002],[11,1509372000003]]}]''"
    by (simp add: example_eval json_eval)
  have c: "sint (UnixNano ?rt 0) \<le> sint (UnixNano ?rt 1)"
    "sint (UnixNano ?rt 1) \<le> sint (UnixNano ?rt 2)"
    "sint (UnixNano ?rt 2) \<le> sint (UnixNano ?rt 3)"
    by (simp_all add: exampleRuntime_def slowClock_def)
  from cpu1_timeserie_reply [OF b u ts n ty m c] b u c show ?thesis
    by (simp add: exampleRuntime_def)
qed

subsection \<open>Target names\<close>

text \<open>
  Claim C3 says that a query naming a target that is not registered fails with a client
  error that contains the name. main.go registers no metric at all, and the query for
  CPU9 is answered with status 200 and data.
\<close>

theorem unregistered_target_counterexample:
  "serve (exampleRuntime exampleBodies fastClock) (post body_cpu9_timeserie) =
     Reply StatusOK
       ''[{\"target\":\"CPU9\",\"datapoints\":[[68,1509372000000],[49,1509372000000],[2,1509372000000],[11,1509372000000]]}]'' \<and>
   \<not> clientError (serve (exampleRuntime exampleBodies fastClock) (post body_cpu9_timeserie))"
  by (simp add: handler_eval example_eval json_eval)

text \<open>
  Claim C3, amended. The handler keeps no registry and rejects no target name. For every
  name, a query whose first target has type \<open>timeserie\<close> is answered with status 200 and
  the encoding of one object that carries the requested name and the four datapoints of
  68, 49, 2 and 11, each with the millisecond reading of the clock when it is built; a
  query whose first target has type \<open>table\<close> is answered with status 200 and the encoding
  of the fixed table. Neither is answered with a client error.
\<close>

theorem every_target_name_is_served:
  assumes "Body r = Inr b" and "Unmarshal rt b = Inr q" and "Targets q = t # ts"
    and "Type t = ''timeserie'' \<and>
           MarshalTimeseries rt
             [\<lparr>ts_Target = Target t,
                ts_Datapoints =
                  [[68, unixMilli (UnixNano rt 0)], [49, unixMilli (UnixNano rt 1)],
                   [2, unixMilli (UnixNano rt 2)], [11, unixMilli (UnixNano rt 3)]]\<rparr>] = Inr s \<or>
         Type t = ''table'' \<and>
           MarshalTable rt
             [\<lparr>Columns = [\<lparr>Text = ''Name'', col_Type = ''string''\<rparr>,
                           \<lparr>Text = ''Value'', col_Type = ''number''\<rparr>,
                           \<lparr>Text = ''Time'', col_Type = ''time''\<rparr>],
                Rows = [[CString ''Alpha'', CInt 68, CFloat (unixMilli (UnixNano rt 0))],
                        [CString ''Bravo'', CInt 49, CFloat (unixMilli (UnixNano rt 1))],
                        [CString ''Charlie'', CInt 2, CFloat (unixMilli (UnixNano rt 2))],
                        [CString ''Delta'', CInt 11, CFloat (unixMilli (UnixNano rt 3))]],
                tbl_Type = ''table''\<rparr>] = Inr s"
  shows "finish (queryHandler rt newResponseWriter r) = Reply StatusOK s \<and>
     \<not> clientError (finish (queryHandler rt newResponseWriter r))"
proof -
  have "Type t = ''timeserie'' \<and> MarshalTimeseries rt (timeseriesResponse rt t) = Inr s \<or>
      Type t = ''table'' \<and> MarshalTable rt (tableResponse rt) = Inr s"
    using assms(4) by (simp add: timeseriesResponse_def tableResponse_def)
  then have "finish (queryHandler rt newResponseWriter r) = Reply StatusOK s"
    using assms(1,2,3)
    by (auto simp: queryHandler_decoded sendTimeseries_encoded sendTable_encoded)
  then show ?thesis
    by simp
qed

text \<open>The witness of the amended C3, at the name CPU9.\<close>

theorem every_target_name_is_served_witness:
  "Body (post body_cpu9_timeserie) = Inr body_cpu9_timeserie \<and>
   Unmarshal (exampleRuntime exampleBodies fastClock) body_cpu9_timeserie =
     Inr (queryFor [(''CPU9'', ''timeserie'')]) \<and>
   MarshalTimeseries (exampleRuntime exampleBodies fastClock)
     [\<lparr>ts_Target = ''CPU9'',
       ts_Datapoints = [[68, 1509372000000], [49, 1509372000000],
                        [2, 1509372000000], [11, 1509372000000]]\<rparr>] =
     Inr ''[{\"target\":\"CPU9\",\"datapoints\":[[68,1509372000000],[49,1509372000000],[2,1509372000000],[11,1509372000000]]}]'' \<and>
   finish (queryHandler (exampleRuntime exampleBodies fastClock) newResponseWriter
            (post body_cpu9_timeserie)) =
     Reply StatusOK
       ''[{\"target\":\"CPU9\",\"datapoints\":[[68,1509372000000],[49,1509372000000],[2,1509372000000],[11,1509372000000]]}]''"
proof -
  let ?rt = "exampleRuntime exampleBodies fastClock"
  let ?t = "\<lparr>Target = ''CPU9'', RefID = [], Type = ''timeserie''\<rparr>"
  let ?s = "''[{\"target\":\"CPU9\",\"datapoints\":[[68,1509372000000],[49,1509372000000],[2,1509372000000],[11,1509372000000]]}]''"
  have b: "Body (post body_cpu9_timeserie) = Inr body_cpu9_timeserie"
    by (simp add: post_def)
  have u: "Unmarshal ?rt body_cpu9_timeserie = Inr (queryFor [(''CPU9'', ''timeserie'')])"
    by (simp add: example_eval)
  have ts: "Targets (queryFor [(''CPU9'', ''timeserie'')]) = ?t # []"
    by (simp add: queryFor_def zeroQuery_def)
  have clk: "unixMilli (UnixNano ?rt 0) = 1509372000000" "unixMilli (UnixNano ?rt 1) = 1509372000000"
    "unixMilli (UnixNano ?rt 2) = 1509372000000" "unixMilli (UnixNano ?rt 3) = 1509372000000"
    by (simp_all add: example_eval)
  have e: "MarshalTimeseries ?rt
      [\<lparr>ts_Target = ''CPU9'',
        ts_Datapoints = [[68, 1509372000000], [49, 1509372000000],
                         [2, 1509372000000], [11, 1509372000000]]\<rparr>] = Inr ?s"
    by (simp add: exampleRuntime_def json_eval)
  then have m: "Type ?t = ''timeserie'' \<and>
        MarshalTimeseries ?rt
          [\<lparr>ts_Target = Target ?t,
            ts_Datapoints =
              [[68, unixMilli (UnixNano ?rt 0)], [49, unixMilli (UnixNano ?rt 1)],
               [2, unixMilli (UnixNano ?rt 2)], [11, unixMilli (UnixNano ?rt 3)]]\<rparr>] = Inr ?s \<or>
      Type ?t = ''table'' \<and>
        MarshalTable ?rt
          [\<lparr>Columns = [\<lparr>Text = ''Name'', col_Type = ''string''\<rparr>,
                       \<lparr>Text = ''Value'', col_Type = ''number''\<rparr>,
                       \<lparr>Text = ''Time'', col_Type = ''time''\<rparr>],
            Rows = [[CString ''Alpha'', CInt 68, CFloat (unixMilli (UnixNano ?rt 0))],
                    [CString ''Bravo'', CInt 49, CFloat (unixMilli (UnixNano ?rt 1))],
                    [CString ''Charlie'', CInt 2, CFloat (unixMilli (UnixNano ?rt 2))],
                    [CString ''Delta'', CInt 11, CFloat (unixMilli (UnixNano ?rt 3))]],
            tbl_Type = ''table''\<rparr>] = Inr ?s"
    by (simp only: clk) simp
  from every_target_name_is_served [OF b u ts m] b u e show ?thesis
    by simp
qed

subsection \<open>Other types\<close>

text \<open>
  Claim C4 says that a first target whose type is neither \<open>timeserie\<close> nor \<open>table\<close>
  makes the request fail with an error that names the type. The \<open>switch\<close> has no
  default: for the type \<open>heatmap\<close> the handler returns without writing, and the client
  gets status 200 and an empty body.
\<close>

theorem unsupported_type_gets_empty_ok:
  "queryHandler (exampleRuntime exampleBodies fastClock) newResponseWriter (post body_cpu1_heatmap) =
     (Returned, \<lparr>status = None, written = []\<rparr>) \<and>
   serve (exampleRuntime exampleBodies fastClock) (post body_cpu1_heatmap) = Reply StatusOK []"
  by (simp add: handler_eval example_eval)

text \<open>The same for every such type.\<close>

lemma queryHandler_other_type:
  "Body r = Inr b \<Longrightarrow> Unmarshal rt b = Inr q \<Longrightarrow> Targets q = t # ts \<Longrightarrow>
   Type t \<noteq> ''timeserie'' \<Longrightarrow> Type t \<noteq> ''table'' \<Longrightarrow>
   finish (queryHandler rt newResponseWriter r) = Reply StatusOK []"
  by (simp add: queryHandler_decoded newResponseWriter_def)

subsection \<open>Malformed bodies\<close>

text \<open>
  Claim C5 says that every malformed body, one without targets included, is rejected with
  a client error and never crashes the handler. The body \<open>{}\<close> decodes to the zero
  \<open>Query\<close>, whose \<open>Targets\<close> is empty; \<open>query.Targets[0]\<close> panics, nothing has been
  written, and the client gets no response.
\<close>

theorem no_targets_panics:
  "Unmarshal (exampleRuntime exampleBodies fastClock) body_no_targets = Inr zeroQuery \<and>
   Targets zeroQuery = [] \<and>
   queryHandler (exampleRuntime exampleBodies fastClock) newResponseWriter (post body_no_targets) =
     (Panicked ''index out of range [0] with length 0'', newResponseWriter) \<and>
   serve (exampleRuntime exampleBodies fastClock) (post body_no_targets) = Aborted"
  by (simp add: handler_eval example_eval)

text \<open>
  The same for every body that decodes to a query without targets. The two other kinds
  of malformed body are rejected as the claim says, see \<open>queryHandler_unreadable\<close> and
  \<open>queryHandler_undecodable\<close> above.
\<close>

lemma queryHandler_no_targets:
  "Body r = Inr b \<Longrightarrow> Unmarshal rt b = Inr q \<Longrightarrow> Targets q = [] \<Longrightarrow>
   finish (queryHandler rt w r) = Aborted"
  by (simp add: queryHandler_def)

subsection \<open>The number of response objects\<close>

text \<open>
  Claim C6 says that a successful response has one object per requested target. A query
  for the two targets CPU1 and CPU2 is answered with the one object of CPU1.
\<close>

theorem two_targets_one_object_counterexample:
  "serve (exampleRuntime exampleBodies fastClock) (post body_two_targets) =
     Reply StatusOK
       ''[{\"target\":\"CPU1\",\"datapoints\":[[68,1509372000000],[49,1509372000000],[2,1509372000000],[11,1509372000000]]}]'' \<and>
   Unmarshal (exampleRuntime exampleBodies fastClock) body_two_targets =
     Inr (queryFor [(''CPU1'', ''timeserie''), (''CPU2'', ''timeserie'')]) \<and>
   length (Targets (queryFor [(''CPU1'', ''timeserie''), (''CPU2'', ''timeserie'')])) = 2 \<and>
   length (timeseriesResponse (exampleRuntime exampleBodies fastClock)
             \<lparr>Target = ''CPU1'', RefID = [], Type = ''timeserie''\<rparr>) = 1"
  by (simp add: handler_eval example_eval json_eval)

text \<open>A reply with status 200 is the encoding of the response that was built.\<close>

lemma sendTimeseries_status_ok:
  assumes "Targets q = t # ts"
    and "finish (sendTimeseries rt newResponseWriter q) = Reply StatusOK s"
  shows "MarshalTimeseries rt (timeseriesResponse rt t) = Inr s"
proof (cases "MarshalTimeseries rt (timeseriesResponse rt t)")
  case (Inl e)
  with assms show ?thesis
    by (simp add: sendTimeseries_not_encoded)
next
  case (Inr s')
  with assms show ?thesis
    by (simp add: sendTimeseries_encoded)
qed

lemma sendTable_status_ok:
  assumes "finish (sendTable rt newResponseWriter q) = Reply StatusOK s"
  shows "MarshalTable rt (tableResponse rt) = Inr s"
proof (cases "MarshalTable rt (tableResponse rt)")
  case (Inl e)
  with assms show ?thesis
    by (simp add: sendTable_not_encoded)
next
  case (Inr s')
  with assms show ?thesis
    by (simp add: sendTable_encoded)
qed

text \<open>
  Claim C6, amended. A request with one or more targets, the first of type \<open>timeserie\<close>
  or \<open>table\<close>, that is answered with status 200 is answered with the encoding of exactly
  one response object, the one of the first target, whatever targets follow it. With
  exactly one target that is one object per target, in the order of the query.
\<close>

theorem one_object_for_the_first_target:
  assumes "Body r = Inr b" and "Unmarshal rt b = Inr q" and "Targets q = t # ts"
    and "Type t = ''timeserie'' \<or> Type t = ''table''"
    and "finish (queryHandler rt newResponseWriter r) = Reply StatusOK s"
  shows "Type t = ''timeserie'' \<and>
           MarshalTimeseries rt (timeseriesResponse rt t) = Inr s \<and>
           map ts_Target (timeseriesResponse rt t) = [Target t] \<or>
         Type t = ''table'' \<and>
           MarshalTable rt (tableResponse rt) = Inr s \<and> length (tableResponse rt) = 1"
  using assms(4)
proof
  assume ty: "Type t = ''timeserie''"
  then have "finish (sendTimeseries rt newResponseWriter q) = Reply StatusOK s"
    using assms by (simp add: queryHandler_decoded)
  then have "MarshalTimeseries rt (timeseriesResponse rt t) = Inr s"
    using assms(3) by (rule sendTimeseries_status_ok [rotated])
  moreover have "map ts_Target (timeseriesResponse rt t) = [Target t]"
    by (simp add: timeseriesResponse_def)
  ultimately show ?thesis using ty by simp
next
  assume ty: "Type t = ''table''"
  then have "finish (sendTable rt newResponseWriter q) = Reply StatusOK s"
    using assms by (simp add: queryHandler_decoded)
  then have "MarshalTable rt (tableResponse rt) = Inr s"
    by (rule sendTable_status_ok)
  moreover have "length (tableResponse rt) = 1"
    by (simp add: tableResponse_def)
  ultimately show ?thesis using ty by simp
qed

text \<open>The witness of the amended C6, at the query for CPU1 and CPU2.\<close>

theorem one_object_for_the_first_target_witness:
  "Body (post body_two_targets) = Inr body_two_targets \<and>
   Unmarshal (exampleRuntime exampleBodies fastClock) body_two_targets =
     Inr (queryFor [(''CPU1'', ''timeserie''), (''CPU2'', ''timeserie'')]) \<and>
   Targets (queryFor [(''CPU1'', ''timeserie''), (''CPU2'', ''timeserie'')]) =
     \<lparr>Target = ''CPU1'', RefID = [], Type = ''timeserie''\<rparr> #
     [\<lparr>Target = ''CPU2'', RefID = [], Type = ''timeserie''\<rparr>] \<and>
   finish (queryHandler (exampleRuntime exampleBodies fastClock) newResponseWriter
            (post body_two_targets)) =
     Reply StatusOK
       ''[{\"target\":\"CPU1\",\"datapoints\":[[68,1509372000000],[49,1509372000000],[2,1509372000000],[11,1509372000000]]}]'' \<and>
   MarshalTimeseries (exampleRuntime exampleBodies fastClock)
     (timeseriesResponse (exampleRuntime exampleBodies fastClock)
        \<lparr>Target = ''CPU1'', RefID = [], Type = ''timeserie''\<rparr>) =
     Inr ''[{\"target\":\"CPU1\",\"datapoints\":[[68,1509372000000],[49,1509372000000],[2,1509372000000],[11,1509372000000]]}]'' \<and>
   map ts_Target (timeseriesResponse (exampleRuntime exampleBodies fastClock)
        \<lparr>Target = ''CPU1'', RefID = [], Type = ''timeserie''\<rparr>) = [''CPU1'']"
proof -
  let ?rt = "exampleRuntime exampleBodies fastClock"
  let ?t = "\<lparr>Target = ''CPU1'', RefID = [], Type = ''timeserie''\<rparr>"
  let ?q = "queryFor [(''CPU1'', ''timeserie''), (''CPU2'', ''timeserie'')]"
  have b: "Body (post body_two_targets) = Inr body_two_targets"
    by (simp add: post_def)
  have u: "Unmarshal ?rt body_two_targets = Inr ?q"
    by (simp add: example_eval)
  have ts: "Targets ?q = ?t # [\<lparr>Target = ''CPU2'', RefID = [], Type = ''timeserie''\<rparr>]"
    by (simp add: queryFor_def zeroQuery_def)
  have ty: "Type ?t = ''timeserie'' \<or> Type ?t = ''table''"
    by simp
  have f: "finish (queryHandler ?rt newResponseWriter (post body_two_targets)) =
     Reply StatusOK
       ''[{\"target\":\"CPU1\",\"datapoints\":[[68,1509372000000],[49,1509372000000],[2,1509372000000],[11,1509372000000]]}]''"
    by (simp add: handler_eval example_eval json_eval)
  from one_object_for_the_first_target [OF b u ts ty f] b u ts f show ?thesis
    by simp
qed

subsection \<open>The reply to a table query\<close>

text \<open>
  Claim C7 says that each row of a table response lists the name of the queried metric.
  The rows of the response to the table query for CPU1 are named Alpha, Bravo, Charlie
  and Delta.
\<close>

theorem table_rows_counterexample:
  "serve (exampleRuntime exampleBodies slowClock) (post body_cpu1_table) =
     Reply StatusOK
       ''[{\"columns\":[{\"text\":\"Name\",\"type\":\"string\"},{\"text\":\"Value\",\"type\":\"number\"},{\"text\":\"Time\",\"type\":\"time\"}],\"rows\":[[\"Alpha\",68,1509372000000],[\"Bravo\",49,1509372000001],[\"Charlie\",2,1509372000002],[\"Delta\",11,1509372000003]],\"type\":\"table\"}]'' \<and>
   map Rows (tableResponse (exampleRuntime exampleBodies slowClock)) =
     [[[CString ''Alpha'', CInt 68, CFloat 1509372000000],
       [CString ''Bravo'', CInt 49, CFloat 1509372000001],
       [CString ''Charlie'', CInt 2, CFloat 1509372000002],
       [CString ''Delta'', CInt 11, CFloat 1509372000003]]]"
  by (simp add: handler_eval example_eval json_eval)

text \<open>
  Claim C7, amended. A query whose first target has type \<open>table\<close> is answered with status
  200 and the encoding of one object with the column schema Name:string, Value:number,
  Time:time and the four rows (Alpha, 68), (Bravo, 49), (Charlie, 2), (Delta, 11), each
  with the millisecond reading of the clock when the row is built; the rows do not name
  the queried metric, and their timestamps do not decrease when the clock does not go
  back.
\<close>

theorem table_reply:
  assumes "Body r = Inr b" and "Unmarshal rt b = Inr q" and "Targets q = t # ts"
    and "Type t = ''table''"
    and "MarshalTable rt
           [\<lparr>Columns = [\<lparr>Text = ''Name'', col_Type = ''string''\<rparr>,
                        \<lparr>Text = ''Value'', col_Type = ''number''\<rparr>,
                        \<lparr>Text = ''Time'', col_Type = ''time''\<rparr>],
             Rows = [[CString ''Alpha'', CInt 68, CFloat (unixMilli (UnixNano rt 0))],
                     [CString ''Bravo'', CInt 49, CFloat (unixMilli (UnixNano rt 1))],
                     [CString ''Charlie'', CInt 2, CFloat (unixMilli (UnixNano rt 2))],
                     [CString ''Delta'', CInt 11, CFloat (unixMilli (UnixNano rt 3))]],
             tbl_Type = ''table''\<rparr>] = Inr s"
    and "sint (UnixNano rt 0) \<le> sint (UnixNano rt 1)"
    and "sint (UnixNano rt 1) \<le> sint (UnixNano rt 2)"
    and "sint (UnixNano rt 2) \<le> sint (UnixNano rt 3)"
  shows "finish (queryHandler rt newResponseWriter r) = Reply StatusOK s \<and>
     unixMilli (UnixNano rt 0) \<le> unixMilli (UnixNano rt 1) \<and>
     unixMilli (UnixNano rt 1) \<le> unixMilli (UnixNano rt 2) \<and>
     unixMilli (UnixNano rt 2) \<le> unixMilli (UnixNano rt 3)"
proof -
  have "MarshalTable rt (tableResponse rt) = Inr s"
    using assms(5) by (simp add: tableResponse_def)
  then have "sendTable rt newResponseWriter q =
      (Returned, \<lparr>status = Some StatusOK, written = s\<rparr>)"
    by (rule sendTable_encoded)
  then have "finish (queryHandler rt newResponseWriter r) = Reply StatusOK s"
    using assms(1,2,3,4) by (simp add: queryHandler_decoded)
  then show ?thesis
    using assms(6,7,8) by (simp add: unixMilli_mono)
qed

text \<open>The witness of the amended C7.\<close>

theorem table_reply_witness:
  "Body (post body_cpu1_table) = Inr body_cpu1_table \<and>
   Unmarshal (exampleRuntime exampleBodies slowClock) body_cpu1_table =
     Inr (queryFor [(''CPU1'', ''table'')]) \<and>
   sint (slowClock 0) \<le> sint (slowClock 1) \<and>
   sint (slowClock 1) \<le> sint (slowClock 2) \<and>
   sint (slowClock 2) \<le> sint (slowClock 3) \<and>
   finish (queryHandler (exampleRuntime exampleBodies slowClock) newResponseWriter
            (post body_cpu1_table)) =
     Reply StatusOK
       ''[{\"columns\":[{\"text\":\"Name\",\"type\":\"string\"},{\"text\":\"Value\",\"type\":\"number\"},{\"text\":\"Time\",\"type\":\"time\"}],\"rows\":[[\"Alpha\",68,1509372000000],[\"Bravo\",49,1509372000001],[\"Charlie\",2,1509372000002],[\"Delta\",11,1509372000003]],\"type\":\"table\"}]''"
proof -
  let ?rt = "exampleRuntime exampleBodies slowClock"
  let ?t = "\<lparr>Target = ''CPU1'', RefID = [], Type = ''table''\<rparr>"
  have b: "Body (post body_cpu1_table) = Inr body_cpu1_table"
    by (simp add: post_def)
  have u: "Unmarshal ?rt body_cpu1_table = Inr (queryFor [(''CPU1'', ''table'')])"
    by (simp add: example_eval)
  have ts: "Targets (queryFor [(''CPU1'', ''table'')]) = ?t # []"
    by (simp add: queryFor_def zeroQuery_def)
  have ty: "Type ?t = ''table''"
    by simp
  have m: "MarshalTable ?rt
           [\<lparr>Columns = [\<lparr>Text = ''Name'', col_Type = ''string''\<rparr>,
                        \<lparr>Text = ''Value'', col_Type = ''number''\<rparr>,
                        \<lparr>Text = ''Time'', col_Type = ''time''\<rparr>],
             Rows = [[CString ''Alpha'', CInt 68, CFloat (unixMilli (UnixNano ?rt 0))],
                     [CString ''Bravo'', CInt 49, CFloat (unixMilli (UnixNano ?rt 1))],
                     [CString ''Charlie'', CInt 2, CFloat (unixMilli (UnixNano ?rt 2))],
                     [CString ''Delta'', CInt 11, CFloat (unixMilli (UnixNano ?rt 3))]],
             tbl_Type = ''table''\<rparr>] =
     Inr ''[{\"columns\":[{\"text\":\"Name\",\"type\":\"string\"},{\"text\":\"Value\",\"type\":\"number\"},{\"text\":\"Time\",\"type\":\"time\"}],\"rows\":[[\"Alpha\",68,1509372000000],[\"Bravo\",49,1509372000001],[\"Charlie\",2,1509372000002],[\"Delta\",11,1509372000003]],\"type\":\"table\"}]''"
    by (simp add: example_eval json_eval)
  have c: "sint (UnixNano ?rt 0) \<le> sint (UnixNano ?rt 1)"
    "sint (UnixNano ?rt 1) \<le> sint (UnixNano ?rt 2)"
    "sint (UnixNano ?rt 2) \<le> sint (UnixNano ?rt 3)"
    by (simp_all add: exampleRuntime_def slowClock_def)
  from table_reply [OF b u ts ty m c] b u c show ?thesis
    by (simp add: exampleRuntime_def)
qed

subsection \<open>A response that cannot be encoded\<close>

text \<open>
  When \<open>json.Marshal\<close> returns an error both senders answer through \<open>writeError\<close>, see
  \<open>sendTimeseries_not_encoded\<close> and \<open>sendTable_not_encoded\<close> above. The responses that
  the senders build hold strings, integer constants and whole numbers only, on which
  \<open>json.Marshal\<close> does not fail; nor do the encoders of the examples.
\<close>

lemma example_encoders_do_not_fail:
  "(\<exists>s. jsonTimeseries rs = Inr s) \<and> (\<exists>s. jsonTable rs' = Inr s)"
  by (simp add: jsonTimeseries_def jsonTable_def)

section \<open>Properties of the metric store\<close>

lemma slots_apart:
  fixes j n c :: nat
  assumes "j < n" and "n - j < c"
  shows "j mod c \<noteq> n mod c"
proof
  assume "j mod c = n mod c"
  then have "(n - j) mod c = 0"
    using assms(1) by (metis less_imp_le_nat mod_eq_dvd_iff_nat dvd_imp_mod_0)
  moreover have "(n - j) mod c = n - j"
    using assms(2) by simp
  ultimately show False
    using assms(1) by simp
qed

lemma holds_add:
  assumes "holds m c xs" and "0 < c"
  shows "holds (add m v now) c (xs @ [(v, now)])"
proof -
  let ?n = "length xs"
  from assms have cap: "capacity m = c" and len: "length (buffer m) = c"
    and cnt: "count m = min ?n c" and cur: "writeCursor m = ?n mod c"
    and slots: "\<And>j. j < ?n \<Longrightarrow> ?n - j \<le> c \<Longrightarrow> buffer m ! (j mod c) = xs ! j"
    by (simp_all add: holds_def)
  have "buffer (add m v now) ! (j mod c) = (xs @ [(v, now)]) ! j"
    if "j < Suc ?n" and "Suc ?n - j \<le> c" for j
  proof (cases "j = ?n")
    case True
    then show ?thesis
      using len cur assms(2) by (simp add: add_def)
  next
    case False
    with that have lt: "j < ?n" and near: "?n - j < c"
      by simp_all
    then have "j mod c \<noteq> ?n mod c"
      by (rule slots_apart)
    then have "buffer (add m v now) ! (j mod c) = buffer m ! (j mod c)"
      using cur by (simp add: add_def)
    also have "\<dots> = xs ! j"
      using lt near by (intro slots) simp_all
    finally show ?thesis
      using lt by (simp add: nth_append)
  qed
  moreover have "(?n mod c + 1) mod c = Suc ?n mod c"
    by (simp add: mod_Suc_eq)
  ultimately show ?thesis
    using cap len cnt cur by (simp add: holds_def add_def min_def)
qed

lemma holds_create:
  assumes "create registry n c = Inr m"
  shows "holds m (nat c) []" and "0 < c"
  using assms by (auto simp: create_def holds_def split: if_splits)

lemma holds_addAll:
  assumes "holds m c []" and "0 < c"
  shows "holds (addAll m xs) c xs"
proof (induction xs rule: rev_induct)
  case Nil
  then show ?case using assms(1) by (simp add: addAll_def)
next
  case (snoc x xs)
  obtain v now where x: "x = (v, now)" by (cases x)
  have "addAll m (xs @ [x]) = add (addAll m xs) v now"
    by (simp add: addAll_def x)
  then show ?case
    using holds_add [OF snoc.IH assms(2)] by (simp add: x)
qed

lemma snapshot_all:
  assumes "holds m c xs" and "0 < c"
  shows "snapshot m None = drop (length xs - c) xs"
proof (rule nth_equalityI)
  let ?n = "length xs"
  from assms have cap: "capacity m = c" and cnt: "count m = min ?n c"
    and cur: "writeCursor m = ?n mod c"
    and slots: "\<And>j. j < ?n \<Longrightarrow> ?n - j \<le> c \<Longrightarrow> buffer m ! (j mod c) = xs ! j"
    by (simp_all add: holds_def)
  show len: "length (snapshot m None) = length (drop (?n - c) xs)"
    by (simp add: snapshot_def Let_def cnt min_def)
  fix i
  assume "i < length (snapshot m None)"
  then have i: "i < min ?n c"
    by (simp add: snapshot_def Let_def cnt)
  define k where "k = min ?n c"
  define d where "d = c - k"
  have k: "k \<le> ?n" "k \<le> c" "i < k"
    using i by (simp_all add: k_def)
  have "((?n mod c + c - k) mod c + i) mod c = (?n mod c + c - k + i) mod c"
    by (rule mod_add_left_eq)
  also have "?n mod c + c - k + i = ?n mod c + (d + i)"
    using k by (simp add: d_def)
  also have "(?n mod c + (d + i)) mod c = (?n + (d + i)) mod c"
    by (rule mod_add_left_eq)
  also have "?n + (d + i) = (?n - k + i) + c"
    using k by (simp add: d_def)
  also have "((?n - k + i) + c) mod c = (?n - k + i) mod c"
    by simp
  finally have slot: "((?n mod c + c - k) mod c + i) mod c = (?n - k + i) mod c" .
  have "snapshot m None ! i = buffer m ! ((?n - k + i) mod c)"
    using k slot by (simp add: snapshot_def Let_def cnt cur cap k_def)
  also have "\<dots> = xs ! (?n - k + i)"
    using k by (intro slots) simp_all
  also have "\<dots> = drop (?n - c) xs ! i"
    using k by (simp add: k_def min_def split: if_splits)
  finally show "snapshot m None ! i = drop (?n - c) xs ! i" .
qed

text \<open>
  Claim C1. For every capacity \<open>c > 0\<close> (and a name that is free) the metric is created,
  and after the samples \<open>xs\<close> have been added, the snapshot without a point limit has
  exactly \<open>min (length xs) c\<close> samples: the most recent ones, in the order in which they
  were added.
\<close>

theorem snapshot_returns_the_most_recent_samples:
  assumes "0 < c" and "registry n = None"
  shows "\<exists>m. create registry n c = Inr m \<and>
     length (snapshot (addAll m xs) None) = min (length xs) (nat c) \<and>
     snapshot (addAll m xs) None = drop (length xs - min (length xs) (nat c)) xs"
proof -
  obtain m where m: "create registry n c = Inr m"
    using assms by (simp add: create_def)
  have "holds (addAll m xs) (nat c) xs"
    using holds_create [OF m] by (intro holds_addAll) simp_all
  then have "snapshot (addAll m xs) None = drop (length xs - nat c) xs"
    using assms(1) by (intro snapshot_all) simp_all
  moreover have "length xs - min (length xs) (nat c) = length xs - nat c"
    by (simp add: min_def)
  ultimately show ?thesis
    using m by (simp add: min_def)
qed

text \<open>The witness of C1: capacity 3 and the samples 68, 49, 2, 11; the first is evicted.\<close>

theorem snapshot_returns_the_most_recent_samples_witness:
  "(0::int) < 3 \<and> (Map.empty :: string \<rightharpoonup> Metric) ''CPU1'' = None \<and>
   (\<exists>m. create Map.empty ''CPU1'' 3 = Inr m \<and>
      length (snapshot (addAll m [(68, 1), (49, 2), (2, 3), (11, 4)]) None) = 3 \<and>
      snapshot (addAll m [(68, 1), (49, 2), (2, 3), (11, 4)]) None = [(49, 2), (2, 3), (11, 4)])"
proof -
  let ?xs = "[(68, 1), (49, 2), (2, 3), (11, 4)] :: Sample list"
  have c: "(0::int) < 3" and free: "(Map.empty :: string \<rightharpoonup> Metric) ''CPU1'' = None"
    by simp_all
  from snapshot_returns_the_most_recent_samples
    [where c = 3 and registry = Map.empty and n = "''CPU1''" and xs = ?xs, OF c free]
  obtain m where m: "create Map.empty ''CPU1'' 3 = Inr m"
    and l: "length (snapshot (addAll m ?xs) None) = min (length ?xs) (nat 3)"
    and d: "snapshot (addAll m ?xs) None = drop (length ?xs - min (length ?xs) (nat 3)) ?xs"
    by blast
  from l have "length (snapshot (addAll m ?xs) None) = 3"
    by simp
  moreover from d have "snapshot (addAll m ?xs) None = [(49, 2), (2, 3), (11, 4)]"
    by simp
  ultimately show ?thesis
    using m c free by blast
qed

end
